theory Spec2Isabelle
  imports Main
begin

section \<open>The lobby server of src/app.py\<close>

text \<open>
  The server keeps two global dictionaries: \<open>rooms\<close>, from a room id to a Room object, and
  \<open>players\<close>, from a connection id (\<open>request.sid\<close>) to a dictionary holding the room id
  and the player dictionary of that connection. The player dictionary is one Python object
  that is referenced both from \<open>room.players\<close> and from \<open>players[sid]['player']\<close>, and
  \<open>handle_toggle_ready\<close> mutates it in place. The model therefore keeps the player
  dictionaries in a store indexed by addresses: a room's player list and a registry entry hold
  addresses. Addresses are handed out in increasing order, one per successful join, so an
  address also records when its player joined.
\<close>

subsection \<open>Data\<close>

type_synonym sid = string
type_synonym room_id = string
type_synonym addr = nat

text \<open>Room.status is one of the strings "waiting", "playing", "ended" (line 23).\<close>

datatype status = Waiting | Playing | Ended

text \<open>The dictionary built in \<open>handle_join_room\<close>, lines 98-102.\<close>

record player =
  player_id :: sid
  player_name :: string
  ready :: bool

text \<open>The dictionaries returned by \<open>initialize_game_board\<close> and built by \<open>start_game\<close>.\<close>

record game_board =
  board_type :: string
  board_state :: string

record game_state =
  turn :: int
  current_player :: sid
  board :: game_board

text \<open>class Room, lines 15-25. \<open>created_at\<close> is the clock reading at creation.\<close>

record room =
  room_ident :: room_id
  room_name :: string
  max_players :: int
  password :: "string option"
  game_mode :: string
  room_players :: "addr list"
  status :: status
  created_at :: nat
  room_game_state :: "game_state option"

text \<open>The value stored in \<open>players[request.sid]\<close>, line 104.\<close>

record player_data =
  pd_room_id :: room_id
  pd_player :: addr

text \<open>The dictionary returned by \<open>get_room_info\<close>, lines 204-213.\<close>

record room_info =
  info_id :: room_id
  info_name :: string
  info_game_mode :: string
  info_current_players :: nat
  info_max_players :: int
  info_status :: status

text \<open>
  The three messages sent with the \<open>error\<close> event: line 81 (the room does not exist),
  line 88 (the room password is wrong) and line 93 (the room is full).
\<close>

datatype error_message = RoomNotFound | InvalidPassword | RoomFull

text \<open>The events the handlers emit, with their payloads.\<close>

datatype message =
    Error error_message
  | PlayerJoined player room_info
  | RoomJoined room_info "player list"
  | PlayerLeft sid room_info
  | PlayerReady sid bool room_info
  | GameStarted game_state

record emission =
  event :: message
  recipients :: "sid set"

text \<open>
  The state: the two global dictionaries, the store of player dictionaries with its
  allocation counter, the membership of Flask-SocketIO's broadcast rooms (changed by
  \<open>join_room\<close> and \<open>leave_room\<close>) and the log of everything emitted.
\<close>

record state =
  rooms :: "room_id \<rightharpoonup> room"
  players :: "sid \<rightharpoonup> player_data"
  heap :: "addr \<Rightarrow> player"
  next_addr :: addr
  sio_rooms :: "room_id \<Rightarrow> sid set"
  outbox :: "emission list"

definition init_state :: state where
  "init_state =
     \<lparr>rooms = Map.empty, players = Map.empty,
      heap = (\<lambda>_. \<lparr>player_id = [], player_name = [], ready = False\<rparr>),
      next_addr = 0, sio_rooms = (\<lambda>_. {}), outbox = []\<rparr>"

datatype py_error = IndexError | ValueError

subsection \<open>Flask-SocketIO\<close>

text \<open>
  \<open>emit\<close>, \<open>join_room\<close> and \<open>leave_room\<close> are functions of the Flask-SocketIO library,
  which is not part of the repository. They are modelled from the library's documented
  behaviour inside an event handler: \<open>join_room(r)\<close> and \<open>leave_room(r)\<close> add the calling
  connection to, and remove it from, the broadcast room \<open>r\<close>; \<open>emit(e, p, room=r)\<close> sends to
  every connection that is in \<open>r\<close> at that moment, the caller included (\<open>include_self\<close>
  defaults to True); \<open>emit(e, p)\<close> with no room sends to the calling connection alone.
\<close>

definition join_room :: "room_id \<Rightarrow> sid \<Rightarrow> state \<Rightarrow> state" where
  "join_room rid sid s = s\<lparr>sio_rooms := (sio_rooms s)(rid := insert sid (sio_rooms s rid))\<rparr>"

definition leave_room :: "room_id \<Rightarrow> sid \<Rightarrow> state \<Rightarrow> state" where
  "leave_room rid sid s = s\<lparr>sio_rooms := (sio_rooms s)(rid := sio_rooms s rid - {sid})\<rparr>"

definition emit_room :: "message \<Rightarrow> room_id \<Rightarrow> state \<Rightarrow> state" where
  "emit_room m rid s = s\<lparr>outbox := outbox s @ [\<lparr>event = m, recipients = sio_rooms s rid\<rparr>]\<rparr>"

definition emit_direct :: "message \<Rightarrow> sid \<Rightarrow> state \<Rightarrow> state" where
  "emit_direct m sid s = s\<lparr>outbox := outbox s @ [\<lparr>event = m, recipients = {sid}\<rparr>]\<rparr>"

subsection \<open>Helpers\<close>

definition get_room_info :: "room \<Rightarrow> room_info" where
  "get_room_info r =
     \<lparr>info_id = room_ident r, info_name = room_name r, info_game_mode = game_mode r,
      info_current_players = length (room_players r), info_max_players = max_players r,
      info_status = status r\<rparr>"

definition initialize_game_board :: "string \<Rightarrow> game_board" where
  "initialize_game_board gm =
     (if gm = ''classic'' then \<lparr>board_type = ''classic'', board_state = ''initial''\<rparr>
      else if gm = ''team'' then \<lparr>board_type = ''team'', board_state = ''initial''\<rparr>
      else \<lparr>board_type = ''custom'', board_state = ''initial''\<rparr>)"

text \<open>Python's truth value of \<open>room.password\<close>: None and the empty string are false.\<close>

definition truthy :: "string option \<Rightarrow> bool" where
  "truthy p = (case p of None \<Rightarrow> False | Some v \<Rightarrow> v \<noteq> [])"

subsection \<open>create_room (POST /api/rooms)\<close>

text \<open>
  The JSON body. A key that is absent is None. \<open>max_players\<close> goes through \<open>int(...)\<close>,
  which raises on a value it cannot convert, before anything is stored.
\<close>

datatype int_field = FieldAbsent | FieldInt int | FieldInvalid

record create_data =
  cd_name :: "string option"
  cd_max_players :: int_field
  cd_password :: "string option"
  cd_game_mode :: "string option"

record create_reply =
  reply_room_id :: room_id
  reply_name :: string
  reply_max_players :: int
  reply_has_password :: bool

datatype http_response = Raised py_error | BadRequest | Created create_reply

text \<open>
  \<open>new_id\<close> is the string \<open>str(uuid4())\<close> of line 17 and \<open>now\<close> the clock reading of
  line 24; both come from the environment.
\<close>

definition Room :: "room_id \<Rightarrow> nat \<Rightarrow> string \<Rightarrow> int \<Rightarrow> string option \<Rightarrow> string \<Rightarrow> room" where
  "Room new_id now nm mp pw gm =
     \<lparr>room_ident = new_id, room_name = nm, max_players = mp, password = pw, game_mode = gm,
      room_players = [], status = Waiting, created_at = now, room_game_state = None\<rparr>"

text \<open>\<open>int(data.get('max_players', 2))\<close>, line 51.\<close>

definition parse_max_players :: "int_field \<Rightarrow> py_error + int" where
  "parse_max_players f =
     (case f of FieldAbsent \<Rightarrow> Inr 2 | FieldInt n \<Rightarrow> Inr n | FieldInvalid \<Rightarrow> Inl ValueError)"

definition create_room :: "create_data \<Rightarrow> room_id \<Rightarrow> nat \<Rightarrow> state \<Rightarrow> http_response \<times> state" where
  "create_room d new_id now s =
     (case parse_max_players (cd_max_players d) of
        Inl e \<Rightarrow> (Raised e, s)
      | Inr mp \<Rightarrow>
        (let gm = (case cd_game_mode d of None \<Rightarrow> ''classic'' | Some g \<Rightarrow> g)
         in case cd_name d of
              None \<Rightarrow> (BadRequest, s)
            | Some nm \<Rightarrow>
                if nm = [] then (BadRequest, s)
                else
                  (let r = Room new_id now nm mp (cd_password d) gm
                   in (Created \<lparr>reply_room_id = room_ident r, reply_name = room_name r,
                                 reply_max_players = max_players r,
                                 reply_has_password = (password r \<noteq> None)\<rparr>,
                       s\<lparr>rooms := (rooms s)(room_ident r \<mapsto> r)\<rparr>))))"

subsection \<open>join_room\<close>

record join_data =
  jd_room_id :: "room_id option"
  jd_player_name :: "string option"
  jd_password :: "string option"

text \<open>
  The default player name of line 77 is a fixed two-character prefix and a hyphen (seven
  bytes in UTF-8) followed by the first four characters of the connection id.
\<close>

definition default_name_prefix :: string where
  "default_name_prefix = [CHR 0xE7, CHR 0x8E, CHR 0xA9, CHR 0xE5, CHR 0xAE, CHR 0xB6, CHR ''-'']"

definition handle_join_room :: "sid \<Rightarrow> join_data \<Rightarrow> state \<Rightarrow> state" where
  "handle_join_room sid d s =
     (let nm = (case jd_player_name d of None \<Rightarrow> default_name_prefix @ take 4 sid | Some n \<Rightarrow> n)
      in case jd_room_id d of
           None \<Rightarrow> emit_direct (Error RoomNotFound) sid s
         | Some rid \<Rightarrow>
           (case rooms s rid of
              None \<Rightarrow> emit_direct (Error RoomNotFound) sid s
            | Some r \<Rightarrow>
                if truthy (password r) \<and> password r \<noteq> jd_password d
                then emit_direct (Error InvalidPassword) sid s
                else if max_players r \<le> int (length (room_players r))
                then emit_direct (Error RoomFull) sid s
                else
                  (let s1 = join_room rid sid s;
                       a = next_addr s1;
                       p = \<lparr>player_id = sid, player_name = nm, ready = False\<rparr>;
                       r' = r\<lparr>room_players := room_players r @ [a]\<rparr>;
                       s2 = s1\<lparr>heap := (heap s1)(a := p), next_addr := Suc a,
                               rooms := (rooms s1)(rid \<mapsto> r'),
                               players := (players s1)(sid \<mapsto> \<lparr>pd_room_id = rid, pd_player = a\<rparr>)\<rparr>;
                       s3 = emit_room (PlayerJoined p (get_room_info r')) rid s2
                   in emit_direct
                        (RoomJoined (get_room_info r') (map (heap s3) (room_players r'))) sid s3)))"

text \<open>A join request passes the three checks of lines 80-94.\<close>

definition join_accepts :: "join_data \<Rightarrow> room_id \<Rightarrow> room \<Rightarrow> state \<Rightarrow> bool" where
  "join_accepts d rid r s =
     (jd_room_id d = Some rid \<and> rooms s rid = Some r
      \<and> \<not> (truthy (password r) \<and> password r \<noteq> jd_password d)
      \<and> int (length (room_players r)) < max_players r)"

subsection \<open>leave_room\<close>

definition handle_leave_room :: "sid \<Rightarrow> state \<Rightarrow> state" where
  "handle_leave_room sid s =
     (case players s sid of
        None \<Rightarrow> s
      | Some pd \<Rightarrow>
        (let rid = pd_room_id pd
         in case rooms s rid of
              None \<Rightarrow> s
            | Some r \<Rightarrow>
              (let r' = r\<lparr>room_players := filter (\<lambda>a. player_id (heap s a) \<noteq> sid) (room_players r)\<rparr>;
                   s1 = s\<lparr>rooms := (rooms s)(rid \<mapsto> r')\<rparr>;
                   s2 = leave_room rid sid s1;
                   s3 = s2\<lparr>players := (players s2)(sid := None)\<rparr>;
                   s4 = emit_room (PlayerLeft sid (get_room_info r')) rid s3
               in if length (room_players r') = 0
                  then s4\<lparr>rooms := (rooms s4)(rid := None)\<rparr>
                  else s4)))"

subsection \<open>toggle_ready and start_game\<close>

text \<open>
  \<open>room.players[0]\<close> raises IndexError on an empty list; by then line 180 has already set
  the status, but the model keeps only the error, since no state is read after it.
\<close>

definition start_game :: "room_id \<Rightarrow> state \<Rightarrow> py_error + state" where
  "start_game rid s =
     (case rooms s rid of
        None \<Rightarrow> Inr s
      | Some r \<Rightarrow>
        (case room_players r of
           [] \<Rightarrow> Inl IndexError
         | a # _ \<Rightarrow>
           (let gs = \<lparr>turn = 0, current_player = player_id (heap s a),
                      board = initialize_game_board (game_mode r)\<rparr>;
                r' = r\<lparr>status := Playing, room_game_state := Some gs\<rparr>;
                s1 = s\<lparr>rooms := (rooms s)(rid \<mapsto> r')\<rparr>
            in Inr (emit_room (GameStarted gs) rid s1))))"

text \<open>Line 161: the player dictionary of the registry entry is changed in place.\<close>

definition flip_ready :: "addr \<Rightarrow> state \<Rightarrow> state" where
  "flip_ready a s = s\<lparr>heap := (heap s)(a := (heap s a)\<lparr>ready := \<not> ready (heap s a)\<rparr>)\<rparr>"

text \<open>The condition of line 171.\<close>

definition readiness_check :: "room \<Rightarrow> state \<Rightarrow> bool" where
  "readiness_check r s =
     (list_all (\<lambda>a. ready (heap s a)) (room_players r) \<and> 2 \<le> length (room_players r))"

definition handle_toggle_ready :: "sid \<Rightarrow> state \<Rightarrow> py_error + state" where
  "handle_toggle_ready sid s =
     (case players s sid of
        None \<Rightarrow> Inr s
      | Some pd \<Rightarrow>
        (let rid = pd_room_id pd; a = pd_player pd
         in case rooms s rid of
              None \<Rightarrow> Inr s
            | Some r \<Rightarrow>
              (let s1 = flip_ready a s;
                   s2 = emit_room (PlayerReady sid (ready (heap s1 a)) (get_room_info r)) rid s1
               in if readiness_check r s2 then start_game rid s2 else Inr s2)))"

subsection \<open>Sequences of requests\<close>

text \<open>
  The server handles one request at a time. A history of the server is a list of events,
  each naming the handler that runs and what it receives. Connecting (line 69) only prints,
  and the source has no handler for the loss of a connection, so neither changes the two
  dictionaries and neither is an event here.
\<close>

datatype event =
    CreateRoom create_data room_id nat
  | JoinRoom sid join_data
  | LeaveRoom sid
  | ToggleReady sid

text \<open>
  \<open>handle_toggle_ready\<close> never returns an error (lemma \<open>handle_toggle_ready_returns\<close>
  below), so the second case of the last equation is never taken.
\<close>

fun step :: "event \<Rightarrow> state \<Rightarrow> state" where
  "step (CreateRoom d new_id now) s = snd (create_room d new_id now s)"
| "step (JoinRoom sid d) s = handle_join_room sid d s"
| "step (LeaveRoom sid) s = handle_leave_room sid s"
| "step (ToggleReady sid) s = (case handle_toggle_ready sid s of Inr s' \<Rightarrow> s' | Inl _ \<Rightarrow> s)"

fun run :: "event list \<Rightarrow> state \<Rightarrow> state" where
  "run [] s = s"
| "run (e # es) s = run es (step e s)"

text \<open>
  \<open>uuid4\<close> returns an identifier that is not in use: every creation in the history gets an
  id that is not a key of \<open>rooms\<close> at that moment.
\<close>

fun fresh_ids :: "event list \<Rightarrow> state \<Rightarrow> bool" where
  "fresh_ids [] s = True"
| "fresh_ids (CreateRoom d new_id now # es) s =
     (rooms s new_id = None \<and> fresh_ids es (step (CreateRoom d new_id now) s))"
| "fresh_ids (e # es) s = fresh_ids es (step e s)"


fun is_create :: "event \<Rightarrow> bool" where
  "is_create (CreateRoom d new_id now) = True"
| "is_create e = False"

subsection \<open>Invariants of the histories\<close>

text \<open>Every room holds at most \<open>max_players\<close> players, or none if that number is negative.\<close>

definition capacity_inv :: "state \<Rightarrow> bool" where
  "capacity_inv s =
     (\<forall>rid r. rooms s rid = Some r \<longrightarrow> int (length (room_players r)) \<le> max 0 (max_players r))"

text \<open>
  Every registry entry names a room of the store whose list holds the entry's player
  dictionary, and that dictionary carries the connection id; every address in use has been
  allocated.
\<close>

definition bound_inv :: "state \<Rightarrow> bool" where
  "bound_inv s =
     ((\<forall>sid pd. players s sid = Some pd \<longrightarrow>
         (\<exists>r. rooms s (pd_room_id pd) = Some r \<and> pd_player pd \<in> set (room_players r)
            \<and> player_id (heap s (pd_player pd)) = sid))
      \<and> (\<forall>rid r a. rooms s rid = Some r \<longrightarrow> a \<in> set (room_players r) \<longrightarrow> a < next_addr s))"



text \<open>Every player list is in the order of allocation, which is the order of joining.\<close>

definition order_inv :: "state \<Rightarrow> bool" where
  "order_inv s =
     (\<forall>rid r. rooms s rid = Some r \<longrightarrow>
        sorted_wrt (<) (room_players r) \<and> (\<forall>a \<in> set (room_players r). a < next_addr s))"

subsection \<open>Requests and histories used as examples\<close>

definition new_room :: "int \<Rightarrow> string option \<Rightarrow> create_data" where
  "new_room mp pw =
     \<lparr>cd_name = Some ''Test'', cd_max_players = FieldInt mp, cd_password = pw,
      cd_game_mode = None\<rparr>"

definition join_req :: "room_id \<Rightarrow> string option \<Rightarrow> join_data" where
  "join_req rid pw = \<lparr>jd_room_id = Some rid, jd_player_name = None, jd_password = pw\<rparr>"

text \<open>A room for three; A and B join and get ready, the game starts; A leaves and C joins.\<close>

definition restart_history :: "event list" where
  "restart_history =
     [CreateRoom (new_room 3 None) ''r1'' 0,
      JoinRoom ''A'' (join_req ''r1'' None), JoinRoom ''B'' (join_req ''r1'' None),
      ToggleReady ''A'', ToggleReady ''B'',
      LeaveRoom ''A'', JoinRoom ''C'' (join_req ''r1'' None)]"

text \<open>A room for two; A and B join and get ready, the game starts.\<close>

definition started_history :: "event list" where
  "started_history =
     [CreateRoom (new_room 2 None) ''r1'' 0,
      JoinRoom ''A'' (join_req ''r1'' None), JoinRoom ''B'' (join_req ''r1'' None),
      ToggleReady ''A'', ToggleReady ''B'']"

text \<open>A room for two; A and B join, A gets ready.\<close>

definition waiting_history :: "event list" where
  "waiting_history =
     [CreateRoom (new_room 2 None) ''r1'' 0,
      JoinRoom ''A'' (join_req ''r1'' None), JoinRoom ''B'' (join_req ''r1'' None),
      ToggleReady ''A'']"

text \<open>A room for two; A, B and C try to join.\<close>

definition full_history :: "event list" where
  "full_history =
     [CreateRoom (new_room 2 None) ''r1'' 0,
      JoinRoom ''A'' (join_req ''r1'' None), JoinRoom ''B'' (join_req ''r1'' None),
      JoinRoom ''C'' (join_req ''r1'' None)]"

text \<open>A room created with \<open>max_players = -1\<close>.\<close>

definition negative_history :: "event list" where
  "negative_history = [CreateRoom (new_room (- 1) None) ''r1'' 0]"


text \<open>Two rooms; A joins the first and leaves it again.\<close>

definition leave_history :: "event list" where
  "leave_history =
     [CreateRoom (new_room 2 None) ''r1'' 0, CreateRoom (new_room 2 None) ''r2'' 1,
      JoinRoom ''A'' (join_req ''r1'' None), LeaveRoom ''A'']"

text \<open>A room for two; A and B join.\<close>

definition pair_history :: "event list" where
  "pair_history =
     [CreateRoom (new_room 2 None) ''r1'' 0,
      JoinRoom ''A'' (join_req ''r1'' None), JoinRoom ''B'' (join_req ''r1'' None)]"


text \<open>A room for two; A joins.\<close>

definition single_history :: "event list" where
  "single_history =
     [CreateRoom (new_room 2 None) ''r1'' 0, JoinRoom ''A'' (join_req ''r1'' None)]"

text \<open>A room created with the empty string as password.\<close>

definition empty_password_history :: "event list" where
  "empty_password_history = [CreateRoom (new_room 2 (Some [])) ''r1'' 0]"

text \<open>A room created with the password "pw".\<close>

definition locked_history :: "event list" where
  "locked_history = [CreateRoom (new_room 2 (Some ''pw'')) ''r1'' 0]"


text \<open>The room "r1" of the examples, with its capacity, password and player list.\<close>

definition test_room :: "int \<Rightarrow> string option \<Rightarrow> addr list \<Rightarrow> room" where
  "test_room mp pw ps = (Room ''r1'' 0 ''Test'' mp pw ''classic'')\<lparr>room_players := ps\<rparr>"

text \<open>The game state of a classic game whose first player is the given connection.\<close>

definition started_by :: "sid \<Rightarrow> game_state" where
  "started_by sid = \<lparr>turn = 0, current_player = sid, board = initialize_game_board ''classic''\<rparr>"

text \<open>The room of \<open>started_history\<close> once the game has started.\<close>

definition started_room :: room where
  "started_room = (test_room 2 None [0, 1])\<lparr>status := Playing, room_game_state := Some (started_by ''A'')\<rparr>"

text \<open>A room with the game mode "foo"; A and B join and get ready, the game starts.\<close>

definition mode_history :: "event list" where
  "mode_history =
     [CreateRoom \<lparr>cd_name = Some ''Test'', cd_max_players = FieldAbsent, cd_password = None,
                  cd_game_mode = Some ''foo''\<rparr> ''r1'' 0,
      JoinRoom ''A'' (join_req ''r1'' None), JoinRoom ''B'' (join_req ''r1'' None),
      ToggleReady ''A'', ToggleReady ''B'']"

section \<open>Properties of the handlers\<close>

text \<open>The definitions that evaluating a history unfolds.\<close>

lemmas model_defs =
  init_state_def new_room_def join_req_def create_room_def parse_max_players_def Room_def
  handle_join_room_def handle_leave_room_def handle_toggle_ready_def start_game_def
  readiness_check_def flip_ready_def emit_room_def emit_direct_def join_room_def
  leave_room_def get_room_info_def truthy_def Let_def initialize_game_board_def
  default_name_prefix_def join_accepts_def

lemmas example_defs = test_room_def started_by_def started_room_def

subsection \<open>The library calls change one field each\<close>

lemma emit_room_fields [simp]:
  "rooms (emit_room m rid s) = rooms s" "players (emit_room m rid s) = players s"
  "heap (emit_room m rid s) = heap s" "next_addr (emit_room m rid s) = next_addr s"
  "sio_rooms (emit_room m rid s) = sio_rooms s"
  "outbox (emit_room m rid s) = outbox s @ [\<lparr>event = m, recipients = sio_rooms s rid\<rparr>]"
  by (simp_all add: emit_room_def)

lemma emit_direct_fields [simp]:
  "rooms (emit_direct m sid s) = rooms s" "players (emit_direct m sid s) = players s"
  "heap (emit_direct m sid s) = heap s" "next_addr (emit_direct m sid s) = next_addr s"
  "sio_rooms (emit_direct m sid s) = sio_rooms s"
  "outbox (emit_direct m sid s) = outbox s @ [\<lparr>event = m, recipients = {sid}\<rparr>]"
  by (simp_all add: emit_direct_def)

lemma join_room_fields [simp]:
  "rooms (join_room rid sid s) = rooms s" "players (join_room rid sid s) = players s"
  "heap (join_room rid sid s) = heap s" "next_addr (join_room rid sid s) = next_addr s"
  "sio_rooms (join_room rid sid s) = (sio_rooms s)(rid := insert sid (sio_rooms s rid))"
  "outbox (join_room rid sid s) = outbox s"
  by (simp_all add: join_room_def)

lemma leave_room_fields [simp]:
  "rooms (leave_room rid sid s) = rooms s" "players (leave_room rid sid s) = players s"
  "heap (leave_room rid sid s) = heap s" "next_addr (leave_room rid sid s) = next_addr s"
  "sio_rooms (leave_room rid sid s) = (sio_rooms s)(rid := sio_rooms s rid - {sid})"
  "outbox (leave_room rid sid s) = outbox s"
  by (simp_all add: leave_room_def)

lemma flip_ready_fields [simp]:
  "rooms (flip_ready a s) = rooms s" "players (flip_ready a s) = players s"
  "next_addr (flip_ready a s) = next_addr s" "sio_rooms (flip_ready a s) = sio_rooms s"
  "outbox (flip_ready a s) = outbox s"
  "player_id (heap (flip_ready a s) b) = player_id (heap s b)"
  "ready (heap (flip_ready a s) b) = (if b = a then \<not> ready (heap s a) else ready (heap s b))"
  by (simp_all add: flip_ready_def)

lemma readiness_check_emit_room [simp]:
  "readiness_check r (emit_room m rid s) = readiness_check r s"
  by (simp add: readiness_check_def)

subsection \<open>What each handler returns\<close>

lemma start_game_fires:
  assumes "rooms s rid = Some r" and "room_players r = a # rest"
  shows "start_game rid s =
     Inr (emit_room
           (GameStarted \<lparr>turn = 0, current_player = player_id (heap s a),
                         board = initialize_game_board (game_mode r)\<rparr>) rid
           (s\<lparr>rooms := (rooms s)(rid \<mapsto> r\<lparr>status := Playing, room_game_state :=
                 Some \<lparr>turn = 0, current_player = player_id (heap s a),
                       board = initialize_game_board (game_mode r)\<rparr>\<rparr>)\<rparr>))"
  using assms by (simp add: start_game_def Let_def)

lemma toggle_unbound: "players s sid = None \<Longrightarrow> handle_toggle_ready sid s = Inr s"
  by (simp add: handle_toggle_ready_def)

lemma toggle_no_room:
  "players s sid = Some pd \<Longrightarrow> rooms s (pd_room_id pd) = None \<Longrightarrow> handle_toggle_ready sid s = Inr s"
  by (simp add: handle_toggle_ready_def Let_def)

lemma toggle_quiet:
  assumes "players s sid = Some pd" and "rooms s (pd_room_id pd) = Some r"
    and "\<not> readiness_check r (flip_ready (pd_player pd) s)"
  shows "handle_toggle_ready sid s =
     Inr (emit_room (PlayerReady sid (\<not> ready (heap s (pd_player pd))) (get_room_info r))
           (pd_room_id pd) (flip_ready (pd_player pd) s))"
  using assms by (simp add: handle_toggle_ready_def Let_def)

lemma toggle_fires:
  assumes "players s sid = Some pd" and "rooms s (pd_room_id pd) = Some r"
    and "readiness_check r (flip_ready (pd_player pd) s)"
  shows "\<exists>a rest. room_players r = a # rest \<and>
     handle_toggle_ready sid s =
     Inr (emit_room
           (GameStarted \<lparr>turn = 0, current_player = player_id (heap s a),
                         board = initialize_game_board (game_mode r)\<rparr>) (pd_room_id pd)
           ((emit_room (PlayerReady sid (\<not> ready (heap s (pd_player pd))) (get_room_info r))
              (pd_room_id pd) (flip_ready (pd_player pd) s))
            \<lparr>rooms := (rooms s)(pd_room_id pd \<mapsto> r\<lparr>status := Playing, room_game_state :=
                 Some \<lparr>turn = 0, current_player = player_id (heap s a),
                       board = initialize_game_board (game_mode r)\<rparr>\<rparr>)\<rparr>))"
proof -
  from assms(3) have "2 \<le> length (room_players r)"
    by (simp add: readiness_check_def)
  then obtain a rest where ar: "room_players r = a # rest"
    by (cases "room_players r") auto
  let ?s2 = "emit_room (PlayerReady sid (\<not> ready (heap s (pd_player pd))) (get_room_info r))
              (pd_room_id pd) (flip_ready (pd_player pd) s)"
  have "rooms ?s2 (pd_room_id pd) = Some r"
    using assms(2) by simp
  from start_game_fires [OF this ar] assms ar show ?thesis
    by (simp add: handle_toggle_ready_def Let_def)
qed

lemma handle_toggle_ready_returns: "\<exists>s'. handle_toggle_ready sid s = Inr s'"
proof (cases "players s sid")
  case None
  then show ?thesis by (simp add: toggle_unbound)
next
  case (Some pd)
  show ?thesis
  proof (cases "rooms s (pd_room_id pd)")
    case None
    with Some show ?thesis by (simp add: toggle_no_room)
  next
    case (Some r)
    show ?thesis
    proof (cases "readiness_check r (flip_ready (pd_player pd) s)")
      case True
      from toggle_fires [OF \<open>players s sid = Some pd\<close> Some True] show ?thesis by blast
    next
      case False
      from toggle_quiet [OF \<open>players s sid = Some pd\<close> Some False] show ?thesis by blast
    qed
  qed
qed

text \<open>What a toggle leaves alone.\<close>

lemma toggle_frame:
  assumes "handle_toggle_ready sid s = Inr s'"
  shows "players s' = players s" and "next_addr s' = next_addr s"
    and "player_id (heap s' b) = player_id (heap s b)"
    and "rooms s' rid = Some r' \<Longrightarrow>
           \<exists>r. rooms s rid = Some r \<and> room_players r' = room_players r \<and> max_players r' = max_players r"
    and "rooms s rid = Some r \<Longrightarrow> \<exists>r'. rooms s' rid = Some r' \<and> room_players r' = room_players r"
proof -
  consider (unbound) "players s sid = None"
    | (noroom) pd where "players s sid = Some pd" "rooms s (pd_room_id pd) = None"
    | (quiet) pd r0 where "players s sid = Some pd" "rooms s (pd_room_id pd) = Some r0"
        "\<not> readiness_check r0 (flip_ready (pd_player pd) s)"
    | (fires) pd r0 where "players s sid = Some pd" "rooms s (pd_room_id pd) = Some r0"
        "readiness_check r0 (flip_ready (pd_player pd) s)"
  proof (cases "players s sid")
    case None
    then show thesis by (rule unbound)
  next
    case (Some pd)
    show thesis
    proof (cases "rooms s (pd_room_id pd)")
      case None
      with Some show thesis by (rule noroom)
    next
      case (Some r0)
      with \<open>players s sid = Some pd\<close> quiet fires show thesis by blast
    qed
  qed
  then have "players s' = players s \<and> next_addr s' = next_addr s
      \<and> player_id (heap s' b) = player_id (heap s b)
      \<and> (rooms s' rid = Some r' \<longrightarrow>
           (\<exists>r. rooms s rid = Some r \<and> room_players r' = room_players r \<and> max_players r' = max_players r))
      \<and> (rooms s rid = Some r \<longrightarrow> (\<exists>r'. rooms s' rid = Some r' \<and> room_players r' = room_players r))"
  proof cases
    case unbound
    with assms show ?thesis by (simp add: toggle_unbound)
  next
    case noroom
    with assms show ?thesis by (simp add: toggle_no_room)
  next
    case quiet
    from toggle_quiet [OF quiet] assms show ?thesis by auto
  next
    case fires
    from toggle_fires [OF fires] assms fires(2) show ?thesis by (auto split: if_splits)
  qed
  then show "players s' = players s" and "next_addr s' = next_addr s"
    and "player_id (heap s' b) = player_id (heap s b)"
    and "rooms s' rid = Some r' \<Longrightarrow>
           \<exists>r. rooms s rid = Some r \<and> room_players r' = room_players r \<and> max_players r' = max_players r"
    and "rooms s rid = Some r \<Longrightarrow> \<exists>r'. rooms s' rid = Some r' \<and> room_players r' = room_players r"
    by blast+
qed

lemma create_room_frame [simp]:
  "players (snd (create_room d i n s)) = players s"
  "heap (snd (create_room d i n s)) = heap s"
  "next_addr (snd (create_room d i n s)) = next_addr s"
  "sio_rooms (snd (create_room d i n s)) = sio_rooms s"
  "outbox (snd (create_room d i n s)) = outbox s"
  by (simp_all add: create_room_def Let_def split: sum.splits option.splits)

lemma create_room_rooms:
  "rooms (snd (create_room d i n s)) = rooms s \<or>
   (\<exists>nm mp gm. rooms (snd (create_room d i n s)) = (rooms s)(i \<mapsto> Room i n nm mp (cd_password d) gm))"
  by (auto simp: create_room_def Let_def Room_def split: sum.splits option.splits)

lemma Room_fields [simp]:
  "room_players (Room i n nm mp pw gm) = []" "max_players (Room i n nm mp pw gm) = mp"
  "status (Room i n nm mp pw gm) = Waiting" "room_game_state (Room i n nm mp pw gm) = None"
  "password (Room i n nm mp pw gm) = pw" "room_ident (Room i n nm mp pw gm) = i"
  by (simp_all add: Room_def)

lemma join_cases:
  obtains (refused) e where "handle_join_room sid d s = emit_direct (Error e) sid s"
  | (accepted) rid r where "join_accepts d rid r s"
proof (cases "jd_room_id d")
  case None
  then have "handle_join_room sid d s = emit_direct (Error RoomNotFound) sid s"
    by (simp add: handle_join_room_def)
  then show thesis by (rule refused)
next
  case (Some rid)
  show thesis
  proof (cases "rooms s rid")
    case None
    with Some have "handle_join_room sid d s = emit_direct (Error RoomNotFound) sid s"
      by (simp add: handle_join_room_def)
    then show thesis by (rule refused)
  next
    case (Some r)
    show thesis
    proof (cases "join_accepts d rid r s")
      case True
      then show thesis by (rule accepted)
    next
      case False
      with Some \<open>jd_room_id d = Some rid\<close>
      have "handle_join_room sid d s = emit_direct (Error InvalidPassword) sid s
          \<or> handle_join_room sid d s = emit_direct (Error RoomFull) sid s"
        by (auto simp: handle_join_room_def join_accepts_def)
      then show thesis using refused by blast
    qed
  qed
qed

lemma join_accepted:
  assumes "join_accepts d rid r s"
  shows "rooms (handle_join_room sid d s) =
           (rooms s)(rid \<mapsto> r\<lparr>room_players := room_players r @ [next_addr s]\<rparr>)"
    and "players (handle_join_room sid d s) =
           (players s)(sid \<mapsto> \<lparr>pd_room_id = rid, pd_player = next_addr s\<rparr>)"
    and "player_id (heap (handle_join_room sid d s) a) =
           (if a = next_addr s then sid else player_id (heap s a))"
    and "ready (heap (handle_join_room sid d s) a) = (a \<noteq> next_addr s \<and> ready (heap s a))"
    and "next_addr (handle_join_room sid d s) = Suc (next_addr s)"
  using assms by (auto simp: handle_join_room_def join_accepts_def Let_def)

lemma leave_unbound: "players s sid = None \<Longrightarrow> handle_leave_room sid s = s"
  by (simp add: handle_leave_room_def)

lemma leave_no_room:
  "players s sid = Some pd \<Longrightarrow> rooms s (pd_room_id pd) = None \<Longrightarrow> handle_leave_room sid s = s"
  by (simp add: handle_leave_room_def Let_def)

lemma leave_bound:
  assumes "players s sid = Some pd" and "rooms s (pd_room_id pd) = Some r"
  shows "rooms (handle_leave_room sid s) =
           (if filter (\<lambda>a. player_id (heap s a) \<noteq> sid) (room_players r) = []
            then (rooms s)(pd_room_id pd := None)
            else (rooms s)(pd_room_id pd \<mapsto>
                   r\<lparr>room_players := filter (\<lambda>a. player_id (heap s a) \<noteq> sid) (room_players r)\<rparr>))"
    and "players (handle_leave_room sid s) = (players s)(sid := None)"
    and "heap (handle_leave_room sid s) = heap s"
    and "next_addr (handle_leave_room sid s) = next_addr s"
  using assms by (auto simp: handle_leave_room_def Let_def)

lemma leave_cases:
  obtains (noop) "handle_leave_room sid s = s"
  | (bound) pd r where "players s sid = Some pd" "rooms s (pd_room_id pd) = Some r"
proof (cases "players s sid")
  case None
  then show thesis using noop by (simp add: leave_unbound)
next
  case (Some pd)
  then show thesis using noop bound by (cases "rooms s (pd_room_id pd)") (auto simp: leave_no_room)
qed

subsection \<open>Capacity\<close>

lemma capacity_create: "capacity_inv s \<Longrightarrow> capacity_inv (snd (create_room d i n s))"
  using create_room_rooms [of d i n s] by (auto simp: capacity_inv_def split: if_splits)

lemma capacity_join: 
  assumes "capacity_inv s" shows "capacity_inv (handle_join_room sid d s)"
proof (cases rule: join_cases [of sid d s])
  case (refused e)
  with assms show ?thesis by (simp add: capacity_inv_def)
next
  case (accepted rid r)
  from join_accepted(1) [OF this] accepted assms show ?thesis
    by (auto simp: capacity_inv_def join_accepts_def)
qed

lemma length_filter_int: "int (length xs) \<le> m \<Longrightarrow> int (length (filter P xs)) \<le> m"
  using length_filter_le [of P xs] by linarith

lemma capacity_leave: 
  assumes "capacity_inv s" shows "capacity_inv (handle_leave_room sid s)"
proof (cases rule: leave_cases [of sid s])
  case noop
  with assms show ?thesis by simp
next
  case (bound pd r)
  from leave_bound(1) [OF this] bound assms show ?thesis
    by (auto simp: capacity_inv_def length_filter_int split: if_splits)
qed

lemma capacity_toggle:
  assumes "capacity_inv s" and "handle_toggle_ready sid s = Inr s'" shows "capacity_inv s'"
  unfolding capacity_inv_def
proof (intro allI impI)
  fix rid r' assume "rooms s' rid = Some r'"
  from toggle_frame(4) [OF assms(2) this] assms(1)
  show "int (length (room_players r')) \<le> max 0 (max_players r')"
    by (auto simp: capacity_inv_def)
qed

lemma capacity_step: "capacity_inv s \<Longrightarrow> capacity_inv (step e s)"
  by (cases e) (auto simp: capacity_create capacity_join capacity_leave capacity_toggle split: sum.splits)

lemma capacity_run: "capacity_inv s \<Longrightarrow> capacity_inv (run es s)"
  by (induction es arbitrary: s) (simp_all add: capacity_step)

lemma capacity_init: "capacity_inv init_state"
  by (simp add: capacity_inv_def init_state_def)


subsection \<open>Order of joining\<close>

lemma order_create: "order_inv s \<Longrightarrow> order_inv (snd (create_room d i n s))"
  using create_room_rooms [of d i n s] by (auto simp: order_inv_def split: if_splits)

lemma order_join:
  assumes "order_inv s" shows "order_inv (handle_join_room sid d s)"
proof (cases rule: join_cases [of sid d s])
  case (refused e)
  with assms show ?thesis by (simp add: order_inv_def)
next
  case (accepted rid r)
  from join_accepted(1,5) [OF this] accepted assms show ?thesis
    by (fastforce simp: order_inv_def join_accepts_def sorted_wrt_append)
qed

lemma order_leave:
  assumes "order_inv s" shows "order_inv (handle_leave_room sid s)"
proof (cases rule: leave_cases [of sid s])
  case noop
  with assms show ?thesis by simp
next
  case (bound pd r)
  from leave_bound(1,4) [OF this] bound assms show ?thesis
    by (auto simp: order_inv_def sorted_wrt_filter split: if_splits)
qed

lemma order_toggle:
  assumes "order_inv s" and "handle_toggle_ready sid s = Inr s'" shows "order_inv s'"
  unfolding order_inv_def
proof (intro allI impI)
  fix rid r' assume "rooms s' rid = Some r'"
  from toggle_frame(4) [OF assms(2) this] toggle_frame(2) [OF assms(2)] assms(1)
  show "sorted_wrt (<) (room_players r') \<and> (\<forall>a\<in>set (room_players r'). a < next_addr s')"
    by (auto simp: order_inv_def)
qed

lemma order_step: "order_inv s \<Longrightarrow> order_inv (step e s)"
  by (cases e) (auto simp: order_create order_join order_leave order_toggle split: sum.splits)

lemma order_run: "order_inv s \<Longrightarrow> order_inv (run es s)"
  by (induction es arbitrary: s) (simp_all add: order_step)

lemma order_init: "order_inv init_state"
  by (simp add: order_inv_def init_state_def)

subsection \<open>Registry\<close>

lemma bound_create:
  assumes "bound_inv s" and "rooms s i = None" shows "bound_inv (snd (create_room d i n s))"
  using create_room_rooms [of d i n s] assms by (fastforce simp: bound_inv_def split: if_splits)

lemma bound_join:
  assumes "bound_inv s" shows "bound_inv (handle_join_room sid d s)"
proof (cases rule: join_cases [of sid d s])
  case (refused e)
  with assms show ?thesis by (simp add: bound_inv_def)
next
  case (accepted rid r)
  note f = join_accepted(1,2,3,5) [OF this]
  have r: "rooms s rid = Some r" using accepted by (simp add: join_accepts_def)
  show ?thesis
    unfolding bound_inv_def
  proof (intro conjI allI impI)
    fix sid' pd assume "players (handle_join_room sid d s) sid' = Some pd"
    then have "(sid' = sid \<and> pd = \<lparr>pd_room_id = rid, pd_player = next_addr s\<rparr>)
        \<or> (sid' \<noteq> sid \<and> players s sid' = Some pd)"
      by (auto simp: f split: if_splits)
    then show "\<exists>r'. rooms (handle_join_room sid d s) (pd_room_id pd) = Some r'
        \<and> pd_player pd \<in> set (room_players r')
        \<and> player_id (heap (handle_join_room sid d s) (pd_player pd)) = sid'"
    proof
      assume "sid' = sid \<and> pd = \<lparr>pd_room_id = rid, pd_player = next_addr s\<rparr>"
      then show ?thesis by (simp add: f)
    next
      assume old: "sid' \<noteq> sid \<and> players s sid' = Some pd"
      with assms obtain r0 where r0: "rooms s (pd_room_id pd) = Some r0"
        "pd_player pd \<in> set (room_players r0)" "player_id (heap s (pd_player pd)) = sid'"
        by (auto simp: bound_inv_def)
      with assms have "pd_player pd < next_addr s" by (auto simp: bound_inv_def)
      with r0 r show ?thesis by (auto simp: f)
    qed
  next
    fix rid' r' a assume "rooms (handle_join_room sid d s) rid' = Some r'" "a \<in> set (room_players r')"
    with assms r show "a < next_addr (handle_join_room sid d s)"
      by (fastforce simp: f bound_inv_def split: if_splits)
  qed
qed

lemma bound_leave:
  assumes "bound_inv s" shows "bound_inv (handle_leave_room sid s)"
proof (cases rule: leave_cases [of sid s])
  case noop
  with assms show ?thesis by simp
next
  case (bound pd r)
  note f = leave_bound [OF this]
  let ?rest = "filter (\<lambda>a. player_id (heap s a) \<noteq> sid) (room_players r)"
  show ?thesis
    unfolding bound_inv_def
  proof (intro conjI allI impI)
    fix sid' pd' assume "players (handle_leave_room sid s) sid' = Some pd'"
    then have ne: "sid' \<noteq> sid" and old: "players s sid' = Some pd'"
      by (auto simp: f split: if_splits)
    with assms obtain r0 where r0: "rooms s (pd_room_id pd') = Some r0"
      "pd_player pd' \<in> set (room_players r0)" "player_id (heap s (pd_player pd')) = sid'"
      by (auto simp: bound_inv_def)
    show "\<exists>r'. rooms (handle_leave_room sid s) (pd_room_id pd') = Some r'
        \<and> pd_player pd' \<in> set (room_players r')
        \<and> player_id (heap (handle_leave_room sid s) (pd_player pd')) = sid'"
    proof (cases "pd_room_id pd' = pd_room_id pd")
      case True
      with r0 bound have "r0 = r" by simp
      with r0 ne have "pd_player pd' \<in> set ?rest" by simp
      then have "?rest \<noteq> []" by (metis empty_iff empty_set)
      with \<open>pd_player pd' \<in> set ?rest\<close> r0 True show ?thesis by (simp add: f)
    next
      case False
      with r0 show ?thesis by (simp add: f)
    qed
  next
    fix rid' r' a assume "rooms (handle_leave_room sid s) rid' = Some r'" "a \<in> set (room_players r')"
    with assms bound show "a < next_addr (handle_leave_room sid s)"
      by (fastforce simp: f bound_inv_def split: if_splits)
  qed
qed

lemma bound_toggle:
  assumes "bound_inv s" and t: "handle_toggle_ready sid s = Inr s'" shows "bound_inv s'"
  unfolding bound_inv_def
proof (intro conjI allI impI)
  fix sid' pd assume "players s' sid' = Some pd"
  then have "players s sid' = Some pd" by (simp add: toggle_frame(1) [OF t])
  with assms obtain r0 where r0: "rooms s (pd_room_id pd) = Some r0"
      "pd_player pd \<in> set (room_players r0)" "player_id (heap s (pd_player pd)) = sid'"
    by (auto simp: bound_inv_def)
  from toggle_frame(5) [OF t r0(1)] r0 toggle_frame(3) [OF t]
  show "\<exists>r'. rooms s' (pd_room_id pd) = Some r' \<and> pd_player pd \<in> set (room_players r')
        \<and> player_id (heap s' (pd_player pd)) = sid'"
    by auto
next
  fix rid' r' a assume "rooms s' rid' = Some r'" "a \<in> set (room_players r')"
  with toggle_frame(4) [OF t this(1)] toggle_frame(2) [OF t] assms(1)
  show "a < next_addr s'" by (auto simp: bound_inv_def)
qed

lemma bound_run: "bound_inv s \<Longrightarrow> fresh_ids es s \<Longrightarrow> bound_inv (run es s)"
proof (induction es arbitrary: s)
  case Nil
  then show ?case by simp
next
  case (Cons e es)
  have "bound_inv (step e s)"
  proof (cases e)
    case (CreateRoom d i n)
    with Cons.prems show ?thesis by (simp add: bound_create)
  next
    case (JoinRoom sid d)
    with Cons.prems show ?thesis by (simp add: bound_join)
  next
    case (LeaveRoom sid)
    with Cons.prems show ?thesis by (simp add: bound_leave)
  next
    case (ToggleReady sid)
    with Cons.prems handle_toggle_ready_returns [of sid s] show ?thesis
      by (auto simp: bound_toggle)
  qed
  moreover have "fresh_ids es (step e s)"
    using Cons.prems(2) by (cases e) simp_all
  ultimately show ?case using Cons.IH by simp
qed









subsection \<open>Empty rooms\<close>

lemma run_append: "run (es @ fs) s = run fs (run es s)"
  by (induction es arbitrary: s) simp_all

lemma take_snoc_cases:
  "take k (es @ [e]) = (if k \<le> length es then take k es else es @ [e])"
  by (simp add: take_Suc_conv_app_nth)

lemma create_room_cases:
  obtains (rejected) "snd (create_room d i n s) = s"
  | (created) nm mp where "cd_name d = Some nm" "nm \<noteq> []"
      "parse_max_players (cd_max_players d) = Inr mp"
      "snd (create_room d i n s) =
         s\<lparr>rooms := (rooms s)(i \<mapsto> Room i n nm mp (cd_password d)
              (case cd_game_mode d of None \<Rightarrow> ''classic'' | Some g \<Rightarrow> g))\<rparr>"
proof (cases "parse_max_players (cd_max_players d)")
  case (Inl e)
  then have "snd (create_room d i n s) = s" by (simp add: create_room_def)
  then show thesis by (rule rejected)
next
  case (Inr mp)
  show thesis
  proof (cases "cd_name d")
    case None
    with Inr have "snd (create_room d i n s) = s" by (simp add: create_room_def)
    then show thesis by (rule rejected)
  next
    case (Some nm)
    show thesis
    proof (cases "nm = []")
      case True
      with Inr Some have "snd (create_room d i n s) = s" by (simp add: create_room_def)
      then show thesis by (rule rejected)
    next
      case False
      with Inr Some have "snd (create_room d i n s) =
         s\<lparr>rooms := (rooms s)(i \<mapsto> Room i n nm mp (cd_password d)
              (case cd_game_mode d of None \<Rightarrow> ''classic'' | Some g \<Rightarrow> g))\<rparr>"
        by (simp add: create_room_def Let_def Room_def)
      with Some False Inr show thesis by (rule created)
    qed
  qed
qed

lemma empty_room_join:
  assumes "rooms (handle_join_room sid d s) rid = Some r" and "room_players r = []"
  shows "rooms s rid = Some r"
proof (cases rule: join_cases [of sid d s])
  case (refused e)
  with assms show ?thesis by simp
next
  case (accepted rid0 r0)
  from join_accepted(1) [OF this] assms show ?thesis
    by (auto split: if_splits)
qed

lemma empty_room_leave:
  assumes "rooms (handle_leave_room sid s) rid = Some r" and "room_players r = []"
  shows "rooms s rid = Some r"
proof (cases rule: leave_cases [of sid s])
  case noop
  with assms show ?thesis by simp
next
  case (bound pd r0)
  from leave_bound(1) [OF this] assms show ?thesis
    by (auto split: if_splits)
qed

lemma empty_room_toggle:
  assumes "handle_toggle_ready sid s = Inr s'" and "rooms s' rid = Some r" and "room_players r = []"
  shows "rooms s rid = Some r"
proof (cases "players s sid")
  case None
  with assms show ?thesis by (simp add: toggle_unbound)
next
  case (Some pd)
  show ?thesis
  proof (cases "rooms s (pd_room_id pd)")
    case None
    with Some assms show ?thesis by (simp add: toggle_no_room)
  next
    case (Some r0)
    show ?thesis
    proof (cases "readiness_check r0 (flip_ready (pd_player pd) s)")
      case True
      from toggle_fires [OF \<open>players s sid = Some pd\<close> Some True] assms show ?thesis
        by (auto split: if_splits)
    next
      case False
      from toggle_quiet [OF \<open>players s sid = Some pd\<close> Some False] assms show ?thesis
        by auto
    qed
  qed
qed

lemma empty_room_step:
  assumes "\<not> is_create e" and "rooms (step e s) rid = Some r" and "room_players r = []"
  shows "rooms s rid = Some r"
proof (cases e)
  case (CreateRoom d i n)
  with assms show ?thesis by simp
next
  case (JoinRoom sid d)
  with assms empty_room_join [of sid d s rid r] show ?thesis by simp
next
  case (LeaveRoom sid)
  with assms empty_room_leave [of sid s rid r] show ?thesis by simp
next
  case (ToggleReady sid)
  from handle_toggle_ready_returns [of sid s] obtain s' where t: "handle_toggle_ready sid s = Inr s'" ..
  with assms ToggleReady empty_room_toggle [of sid s s' rid r] show ?thesis by simp
qed


section \<open>The claims\<close>

text \<open>
  C1, as amended. In a room whose status is not waiting, a toggle_ready from a member
  after which some player of the room is not ready, or fewer than two players are present,
  returns normally, emits only player_ready to the room, and leaves every room of the
  store, with its status and game_state, as it was. (The source has no check of the status:
  when the toggle makes everybody ready, start_game runs again.)
\<close>

theorem toggle_after_start_quiet:
  assumes "players s sid = Some \<lparr>pd_room_id = rid, pd_player = p\<rparr>"
    and "rooms s rid = Some r" and "status r \<noteq> Waiting"
    and "\<not> readiness_check r (flip_ready p s)"
  shows "\<exists>s'. handle_toggle_ready sid s = Inr s' \<and> rooms s' = rooms s
     \<and> outbox s' = outbox s @
          [\<lparr>event = PlayerReady sid (\<not> ready (heap s p)) (get_room_info r),
            recipients = sio_rooms s rid\<rparr>]"
  using toggle_quiet [of s sid "\<lparr>pd_room_id = rid, pd_player = p\<rparr>" r] assms by simp

text \<open>
  A room in status playing whose game state names A; A has left and C has joined. When C gets
  ready the game starts again: the game state now names B and game_started is sent again.
\<close>

theorem toggle_after_start_refires:
  "map_option status (rooms (run restart_history init_state) ''r1'') = Some Playing
   \<and> map_option room_game_state (rooms (run restart_history init_state) ''r1'') = Some (Some (started_by ''A''))
   \<and> players (run restart_history init_state) ''C'' = Some \<lparr>pd_room_id = ''r1'', pd_player = 2\<rparr>
   \<and> (case handle_toggle_ready ''C'' (run restart_history init_state) of
        Inl e \<Rightarrow> False
      | Inr s' \<Rightarrow>
          map_option room_game_state (rooms s' ''r1'') = Some (Some (started_by ''B''))
          \<and> last (outbox s') = \<lparr>event = GameStarted (started_by ''B''), recipients = {''B'', ''C''}\<rparr>)"
  by (simp add: restart_history_def example_defs model_defs insert_Diff_if insert_commute)

text \<open>
  After the game has started, A withdraws its readiness.
\<close>

theorem toggle_after_start_quiet_witness:
  "players (run started_history init_state) ''A'' = Some \<lparr>pd_room_id = ''r1'', pd_player = 0\<rparr>
   \<and> rooms (run started_history init_state) ''r1'' = Some started_room
   \<and> status started_room \<noteq> Waiting
   \<and> \<not> readiness_check started_room (flip_ready 0 (run started_history init_state))
   \<and> (\<exists>s'. handle_toggle_ready ''A'' (run started_history init_state) = Inr s'
        \<and> rooms s' = rooms (run started_history init_state)
        \<and> outbox s' = outbox (run started_history init_state) @
            [\<lparr>event = PlayerReady ''A'' False (get_room_info started_room),
              recipients = {''A'', ''B''}\<rparr>])"
proof -
  let ?s = "run started_history init_state"
  have h1: "players ?s ''A'' = Some \<lparr>pd_room_id = ''r1'', pd_player = 0\<rparr>"
    by (simp add: started_history_def model_defs)
  have h2: "rooms ?s ''r1'' = Some started_room"
    by (simp add: started_history_def example_defs model_defs)
  have h3: "status started_room \<noteq> Waiting"
    by (simp add: example_defs)
  have h4: "\<not> readiness_check started_room (flip_ready 0 ?s)"
    by (simp add: started_history_def example_defs model_defs)
  have e: "ready (heap ?s 0)" "sio_rooms ?s ''r1'' = {''A'', ''B''}"
    by (simp_all add: started_history_def model_defs insert_commute)
  from toggle_after_start_quiet [OF h1 h2 h3 h4] h1 h2 h3 h4 e show ?thesis
    by simp
qed

text \<open>
  C2, as amended. After every history of create, join, leave and toggle_ready requests,
  every room of the store holds at most max_players players when max_players is not
  negative, and none when it is negative (create_room accepts any integer).
\<close>

theorem players_within_capacity:
  assumes "rooms (run es init_state) rid = Some r"
  shows "int (length (room_players r)) \<le> max 0 (max_players r)"
  using capacity_run [OF capacity_init, of es] assms by (simp add: capacity_inv_def)

text \<open>
  A room created with max_players = -1 holds no player, which is more than -1.
\<close>

theorem negative_capacity_exceeded:
  "rooms (run negative_history init_state) ''r1'' = Some (test_room (- 1) None [])
   \<and> \<not> int (length (room_players (test_room (- 1) None []))) \<le> max_players (test_room (- 1) None [])"
  by (simp add: negative_history_def example_defs model_defs)

text \<open>
  A room for two after three attempts to join.
\<close>

theorem players_within_capacity_witness:
  "rooms (run full_history init_state) ''r1'' = Some (test_room 2 None [0, 1])
   \<and> int (length (room_players (test_room 2 None [0, 1]))) \<le> max 0 (max_players (test_room 2 None [0, 1]))
   \<and> length (room_players (test_room 2 None [0, 1])) = 2
   \<and> max_players (test_room 2 None [0, 1]) = 2"
proof -
  have h: "rooms (run full_history init_state) ''r1'' = Some (test_room 2 None [0, 1])"
    by (simp add: full_history_def example_defs model_defs)
  from players_within_capacity [OF h] h show ?thesis
    by (simp add: example_defs Room_def)
qed




text \<open>
  C4, as amended. For every room whose password is a non-empty string and every join
  request for it whose password is different (or absent), the join sends the
  invalid-password error to the caller alone and changes nothing else: the room's player
  list, the registry and the rest of the state are as before.
\<close>

theorem wrong_password_rejected:
  assumes "rooms s rid = Some r" and "password r = Some pw" and "pw \<noteq> []"
    and "jd_room_id d = Some rid" and "jd_password d \<noteq> Some pw"
  shows "handle_join_room sid d s =
     s\<lparr>outbox := outbox s @ [\<lparr>event = Error InvalidPassword, recipients = {sid}\<rparr>]\<rparr>"
  using assms by (auto simp: handle_join_room_def truthy_def emit_direct_def)

text \<open>
  A room created with the empty string as password is reported as having a password, and a
  join with the password "x" is accepted.
\<close>

theorem empty_password_admits:
  "fst (create_room (new_room 2 (Some [])) ''r1'' 0 init_state) =
     Created \<lparr>reply_room_id = ''r1'', reply_name = ''Test'', reply_max_players = 2,
              reply_has_password = True\<rparr>
   \<and> map_option password (rooms (run empty_password_history init_state) ''r1'') = Some (Some [])
   \<and> jd_password (join_req ''r1'' (Some ''x'')) = Some ''x''
   \<and> map_option room_players
        (rooms (handle_join_room ''A'' (join_req ''r1'' (Some ''x''))
                 (run empty_password_history init_state)) ''r1'') = Some [0]
   \<and> players (handle_join_room ''A'' (join_req ''r1'' (Some ''x''))
                 (run empty_password_history init_state)) ''A''
        = Some \<lparr>pd_room_id = ''r1'', pd_player = 0\<rparr>
   \<and> map recipients (outbox (handle_join_room ''A'' (join_req ''r1'' (Some ''x''))
                 (run empty_password_history init_state))) = [{''A''}, {''A''}]
   \<and> event (last (outbox (handle_join_room ''A'' (join_req ''r1'' (Some ''x''))
                 (run empty_password_history init_state))))
        = RoomJoined (get_room_info (test_room 2 (Some []) [0]))
            [\<lparr>player_id = ''A'', player_name = default_name_prefix @ ''A'', ready = False\<rparr>]"
  by (simp add: empty_password_history_def example_defs model_defs)

text \<open>
  A room with the password "pw" and a join with the password "bad".
\<close>

theorem wrong_password_rejected_witness:
  "rooms (run locked_history init_state) ''r1'' = Some (test_room 2 (Some ''pw'') [])
   \<and> password (test_room 2 (Some ''pw'') []) = Some ''pw''
   \<and> ''pw'' \<noteq> []
   \<and> jd_room_id (join_req ''r1'' (Some ''bad'')) = Some ''r1''
   \<and> jd_password (join_req ''r1'' (Some ''bad'')) \<noteq> Some ''pw''
   \<and> handle_join_room ''A'' (join_req ''r1'' (Some ''bad'')) (run locked_history init_state) =
       (run locked_history init_state)
         \<lparr>outbox := outbox (run locked_history init_state) @
            [\<lparr>event = Error InvalidPassword, recipients = {''A''}\<rparr>]\<rparr>"
proof -
  have h1: "rooms (run locked_history init_state) ''r1'' = Some (test_room 2 (Some ''pw'') [])"
    by (simp add: locked_history_def example_defs model_defs)
  have h2: "password (test_room 2 (Some ''pw'') []) = Some ''pw''"
    by (simp add: example_defs)
  have h3: "''pw'' \<noteq> []" by simp
  have h4: "jd_room_id (join_req ''r1'' (Some ''bad'')) = Some ''r1''"
    by (simp add: join_req_def)
  have h5: "jd_password (join_req ''r1'' (Some ''bad'')) \<noteq> Some ''pw''"
    by (simp add: join_req_def)
  from wrong_password_rejected [OF h1 h2 h3 h4 h5, of "''A''"] h1 h2 h3 h4 h5 show ?thesis
    by blast
qed

text \<open>
  C5, as amended. After every history, a room of the store with an empty player list is
  the room that a create_room request of the history stored, and it has been in the store,
  empty and unchanged, at every instant since that request: nobody has joined it yet, and
  no join, leave or toggle_ready has left an empty room behind.
\<close>

theorem empty_room_never_joined:
  assumes "rooms (run es init_state) rid = Some r" and "room_players r = []"
  shows "\<exists>es1 d now es2 nm mp. es = es1 @ CreateRoom d rid now # es2
     \<and> cd_name d = Some nm \<and> parse_max_players (cd_max_players d) = Inr mp
     \<and> r = Room rid now nm mp (cd_password d)
              (case cd_game_mode d of None \<Rightarrow> ''classic'' | Some g \<Rightarrow> g)
     \<and> (\<forall>k. rooms (run (es1 @ CreateRoom d rid now # take k es2) init_state) rid = Some r)"
  using assms
proof (induction es arbitrary: r rule: rev_induct)
  case Nil
  then show ?case by (simp add: init_state_def)
next
  case (snoc e es)
  let ?s = "run es init_state"
  from snoc.prems have now: "rooms (step e ?s) rid = Some r" by (simp add: run_append)
  have keep: ?case if before: "rooms ?s rid = Some r"
  proof -
    from snoc.IH [OF before snoc.prems(2)]
    obtain es1 d n es2 nm mp where es: "es = es1 @ CreateRoom d rid n # es2"
      and d: "cd_name d = Some nm" "parse_max_players (cd_max_players d) = Inr mp"
        "r = Room rid n nm mp (cd_password d)
              (case cd_game_mode d of None \<Rightarrow> ''classic'' | Some g \<Rightarrow> g)"
      and always: "\<And>k. rooms (run (es1 @ CreateRoom d rid n # take k es2) init_state) rid = Some r"
      by blast
    have "rooms (run (es1 @ CreateRoom d rid n # take k (es2 @ [e])) init_state) rid = Some r" for k
    proof (cases "k \<le> length es2")
      case True
      with always [of k] show ?thesis by (simp add: take_snoc_cases)
    next
      case False
      then have "es1 @ CreateRoom d rid n # take k (es2 @ [e]) = es @ [e]"
        by (simp add: take_snoc_cases es)
      with snoc.prems(1) show ?thesis by simp
    qed
    moreover have "es @ [e] = es1 @ CreateRoom d rid n # (es2 @ [e])"
      by (simp add: es)
    ultimately show ?thesis using d by blast
  qed
  show ?case
  proof (cases "is_create e")
    case False
    from empty_room_step [OF False now snoc.prems(2)] show ?thesis by (rule keep)
  next
    case True
    then obtain d i n where e: "e = CreateRoom d i n" by (cases e) auto
    show ?thesis
    proof (cases rule: create_room_cases [of d i n ?s])
      case rejected
      with now e have "rooms ?s rid = Some r" by simp
      then show ?thesis by (rule keep)
    next
      case (created nm mp)
      show ?thesis
      proof (cases "rid = i")
        case False
        with created now e have "rooms ?s rid = Some r" by simp
        then show ?thesis by (rule keep)
      next
        case True
        with created now e have r: "r = Room rid n nm mp (cd_password d)
              (case cd_game_mode d of None \<Rightarrow> ''classic'' | Some g \<Rightarrow> g)"
          by simp
        have "rooms (run (es @ CreateRoom d rid n # take k []) init_state) rid = Some r" for k
          using snoc.prems(1) e True by simp
        moreover have "es @ [e] = es @ CreateRoom d rid n # []"
          using e True by simp
        ultimately show ?thesis using created(1,3) r by blast
      qed
    qed
  qed
qed

text \<open>
  The second room of the history is still in the store, with no player, after a join and a
  leave in the first.
\<close>

theorem created_room_is_empty:
  "rooms (run leave_history init_state) ''r2'' = Some (Room ''r2'' 1 ''Test'' 2 None ''classic'')
   \<and> room_players (Room ''r2'' 1 ''Test'' 2 None ''classic'') = []"
  by (simp add: leave_history_def model_defs)

text \<open>
  The same room, traced back to its creation; the first room, emptied by the leave, is gone.
\<close>

theorem empty_room_never_joined_witness:
  "rooms (run leave_history init_state) ''r2'' = Some (Room ''r2'' 1 ''Test'' 2 None ''classic'')
   \<and> room_players (Room ''r2'' 1 ''Test'' 2 None ''classic'') = []
   \<and> (\<exists>es1 d now es2 nm mp. leave_history = es1 @ CreateRoom d ''r2'' now # es2
        \<and> cd_name d = Some nm \<and> parse_max_players (cd_max_players d) = Inr mp
        \<and> Room ''r2'' 1 ''Test'' 2 None ''classic'' = Room ''r2'' now nm mp (cd_password d)
              (case cd_game_mode d of None \<Rightarrow> ''classic'' | Some g \<Rightarrow> g)
        \<and> (\<forall>k. rooms (run (es1 @ CreateRoom d ''r2'' now # take k es2) init_state) ''r2''
               = Some (Room ''r2'' 1 ''Test'' 2 None ''classic'')))
   \<and> rooms (run leave_history init_state) ''r1'' = None"
proof -
  have h1: "rooms (run leave_history init_state) ''r2'' = Some (Room ''r2'' 1 ''Test'' 2 None ''classic'')"
    by (simp add: leave_history_def model_defs)
  have h2: "room_players (Room ''r2'' 1 ''Test'' 2 None ''classic'') = []"
    by (simp add: Room_def)
  have e: "rooms (run leave_history init_state) ''r1'' = None"
    by (simp add: leave_history_def model_defs)
  from empty_room_never_joined [OF h1 h2] h1 h2 e show ?thesis by blast
qed

text \<open>
  C6, as amended. For every successful join, player_joined goes to every connection that
  is in the room's broadcast group after the joining connection has entered it, that is to
  the members from before the join and to the joining connection itself; room_joined goes
  to the joining connection alone.
\<close>

theorem join_broadcast_recipients:
  assumes "join_accepts d rid r s"
  shows "\<exists>pl info ps. outbox (handle_join_room sid d s) = outbox s @
     [\<lparr>event = PlayerJoined pl info, recipients = insert sid (sio_rooms s rid)\<rparr>,
      \<lparr>event = RoomJoined info ps, recipients = {sid}\<rparr>]
     \<and> player_id pl = sid \<and> \<not> ready pl
     \<and> info = get_room_info (r\<lparr>room_players := room_players r @ [next_addr s]\<rparr>)
     \<and> ps = map ((heap s)(next_addr s := pl)) (room_players r @ [next_addr s])"
  using assms by (simp add: handle_join_room_def join_accepts_def Let_def)

text \<open>
  A is in the room; B joins, and player_joined goes to A and to B.
\<close>

theorem joiner_receives_player_joined:
  "sio_rooms (run single_history init_state) ''r1'' = {''A''}
   \<and> ''B'' \<notin> sio_rooms (run single_history init_state) ''r1''
   \<and> event (outbox (handle_join_room ''B'' (join_req ''r1'' None) (run single_history init_state)) ! 2)
       = PlayerJoined \<lparr>player_id = ''B'', player_name = default_name_prefix @ ''B'', ready = False\<rparr>
           (get_room_info (test_room 2 None [0, 1]))
   \<and> recipients (outbox (handle_join_room ''B'' (join_req ''r1'' None) (run single_history init_state)) ! 2)
       = {''A'', ''B''}"
  by (simp add: single_history_def example_defs model_defs insert_commute)

text \<open>
  The same join.
\<close>

theorem join_broadcast_recipients_witness:
  "join_accepts (join_req ''r1'' None) ''r1'' (test_room 2 None [0]) (run single_history init_state)
   \<and> (\<exists>pl info ps.
        outbox (handle_join_room ''B'' (join_req ''r1'' None) (run single_history init_state)) =
          outbox (run single_history init_state) @
          [\<lparr>event = PlayerJoined pl info,
            recipients = insert ''B'' (sio_rooms (run single_history init_state) ''r1'')\<rparr>,
           \<lparr>event = RoomJoined info ps, recipients = {''B''}\<rparr>]
        \<and> player_id pl = ''B'' \<and> \<not> ready pl
        \<and> info = get_room_info ((test_room 2 None [0])
                   \<lparr>room_players := room_players (test_room 2 None [0]) @
                       [next_addr (run single_history init_state)]\<rparr>)
        \<and> ps = map ((heap (run single_history init_state))
                       (next_addr (run single_history init_state) := pl))
                 (room_players (test_room 2 None [0]) @ [next_addr (run single_history init_state)]))
   \<and> insert ''B'' (sio_rooms (run single_history init_state) ''r1'') = {''A'', ''B''}"
proof -
  have h: "join_accepts (join_req ''r1'' None) ''r1'' (test_room 2 None [0]) (run single_history init_state)"
    by (simp add: single_history_def example_defs model_defs)
  have e: "insert ''B'' (sio_rooms (run single_history init_state) ''r1'') = {''A'', ''B''}"
    by (simp add: single_history_def model_defs insert_commute)
  from join_broadcast_recipients [OF h, of "''B''"] h e show ?thesis by blast
qed

text \<open>
  C7. In a room in status waiting, a toggle_ready from a member returns normally and keeps
  the player list; afterwards the status is playing exactly when all players of the room
  are ready and there are at least two of them, and waiting otherwise. With fewer than two
  players the status stays waiting, whatever the ready flags are.
\<close>

theorem start_exactly_when_ready:
  assumes "players s sid = Some \<lparr>pd_room_id = rid, pd_player = p\<rparr>"
    and "rooms s rid = Some r" and "status r = Waiting"
  shows "\<exists>s' r'. handle_toggle_ready sid s = Inr s' \<and> rooms s' rid = Some r'
     \<and> room_players r' = room_players r
     \<and> status r' =
         (if list_all (\<lambda>a. ready (heap s' a)) (room_players r') \<and> 2 \<le> length (room_players r')
          then Playing else Waiting)
     \<and> (length (room_players r) < 2 \<longrightarrow> status r' = Waiting)"
proof -
  let ?pd = "\<lparr>pd_room_id = rid, pd_player = p\<rparr>"
  have "\<exists>s' r'. handle_toggle_ready sid s = Inr s' \<and> rooms s' rid = Some r'
     \<and> room_players r' = room_players r
     \<and> status r' = (if readiness_check r' s' then Playing else Waiting)"
  proof (cases "readiness_check r (flip_ready p s)")
    case True
    from toggle_fires [of s sid ?pd r] assms True
    obtain s' a where t: "handle_toggle_ready sid s = Inr s'"
      and r': "rooms s' rid = Some (r\<lparr>status := Playing, room_game_state :=
                 Some \<lparr>turn = 0, current_player = player_id (heap s a),
                       board = initialize_game_board (game_mode r)\<rparr>\<rparr>)"
      and h: "heap s' = heap (flip_ready p s)"
      by auto
    from True h have "readiness_check (r\<lparr>status := Playing, room_game_state :=
                 Some \<lparr>turn = 0, current_player = player_id (heap s a),
                       board = initialize_game_board (game_mode r)\<rparr>\<rparr>) s'"
      by (simp add: readiness_check_def)
    with t r' show ?thesis by auto
  next
    case False
    from toggle_quiet [of s sid ?pd r] assms False
    obtain s' where t: "handle_toggle_ready sid s = Inr s'" and r': "rooms s' rid = Some r"
      and h: "heap s' = heap (flip_ready p s)"
      by auto
    from False h have "\<not> readiness_check r s'"
      by (simp add: readiness_check_def)
    with t r' assms(3) show ?thesis by auto
  qed
  then obtain s' r' where "handle_toggle_ready sid s = Inr s'" and "rooms s' rid = Some r'"
    and "room_players r' = room_players r"
    and "status r' = (if readiness_check r' s' then Playing else Waiting)"
    by blast
  then have "handle_toggle_ready sid s = Inr s' \<and> rooms s' rid = Some r'
     \<and> room_players r' = room_players r
     \<and> status r' =
         (if list_all (\<lambda>a. ready (heap s' a)) (room_players r') \<and> 2 \<le> length (room_players r')
          then Playing else Waiting)
     \<and> (length (room_players r) < 2 \<longrightarrow> status r' = Waiting)"
    by (simp add: readiness_check_def)
  then show ?thesis by blast
qed

text \<open>
  A alone in a room gets ready and the room stays waiting; with A ready, B gets ready and
  the room is playing.
\<close>

theorem start_exactly_when_ready_witness:
  "players (run single_history init_state) ''A'' = Some \<lparr>pd_room_id = ''r1'', pd_player = 0\<rparr>
   \<and> rooms (run single_history init_state) ''r1'' = Some (test_room 2 None [0])
   \<and> status (test_room 2 None [0]) = Waiting
   \<and> (\<exists>s' r'. handle_toggle_ready ''A'' (run single_history init_state) = Inr s'
        \<and> rooms s' ''r1'' = Some r' \<and> room_players r' = [0]
        \<and> list_all (\<lambda>a. ready (heap s' a)) (room_players r')
        \<and> status r' = Waiting)
   \<and> players (run waiting_history init_state) ''B'' = Some \<lparr>pd_room_id = ''r1'', pd_player = 1\<rparr>
   \<and> rooms (run waiting_history init_state) ''r1'' = Some (test_room 2 None [0, 1])
   \<and> status (test_room 2 None [0, 1]) = Waiting
   \<and> (\<exists>s' r'. handle_toggle_ready ''B'' (run waiting_history init_state) = Inr s'
        \<and> rooms s' ''r1'' = Some r' \<and> room_players r' = [0, 1]
        \<and> list_all (\<lambda>a. ready (heap s' a)) (room_players r')
        \<and> status r' = Playing)"
proof -
  let ?s1 = "run single_history init_state" and ?s2 = "run waiting_history init_state"
  have a1: "players ?s1 ''A'' = Some \<lparr>pd_room_id = ''r1'', pd_player = 0\<rparr>"
    by (simp add: single_history_def model_defs)
  have a2: "rooms ?s1 ''r1'' = Some (test_room 2 None [0])"
    by (simp add: single_history_def example_defs model_defs)
  have a3: "status (test_room 2 None [0]) = Waiting"
    by (simp add: example_defs)
  have b1: "players ?s2 ''B'' = Some \<lparr>pd_room_id = ''r1'', pd_player = 1\<rparr>"
    by (simp add: waiting_history_def model_defs)
  have b2: "rooms ?s2 ''r1'' = Some (test_room 2 None [0, 1])"
    by (simp add: waiting_history_def example_defs model_defs)
  have b3: "status (test_room 2 None [0, 1]) = Waiting"
    by (simp add: example_defs)
  from start_exactly_when_ready [OF a1 a2 a3]
  obtain s1 r1 where t1: "handle_toggle_ready ''A'' ?s1 = Inr s1" "rooms s1 ''r1'' = Some r1"
      "room_players r1 = room_players (test_room 2 None [0])"
      "status r1 = (if list_all (\<lambda>a. ready (heap s1 a)) (room_players r1) \<and> 2 \<le> length (room_players r1)
          then Playing else Waiting)"
    by blast
  have c1: "handle_toggle_ready ''A'' ?s1 = Inr s1 \<Longrightarrow> ready (heap s1 0)"
    by (auto simp add: single_history_def model_defs)
  from t1 c1 have w1: "room_players r1 = [0]" "list_all (\<lambda>a. ready (heap s1 a)) (room_players r1)"
      "status r1 = Waiting"
    by (simp_all add: example_defs)
  from start_exactly_when_ready [OF b1 b2 b3]
  obtain s2 r2 where t2: "handle_toggle_ready ''B'' ?s2 = Inr s2" "rooms s2 ''r1'' = Some r2"
      "room_players r2 = room_players (test_room 2 None [0, 1])"
      "status r2 = (if list_all (\<lambda>a. ready (heap s2 a)) (room_players r2) \<and> 2 \<le> length (room_players r2)
          then Playing else Waiting)"
    by blast
  have c2: "handle_toggle_ready ''B'' ?s2 = Inr s2 \<Longrightarrow> ready (heap s2 0) \<and> ready (heap s2 1)"
    by (auto simp add: waiting_history_def model_defs)
  from t2 c2 have w2: "room_players r2 = [0, 1]" "list_all (\<lambda>a. ready (heap s2 a)) (room_players r2)"
      "status r2 = Playing"
    by (simp_all add: example_defs)
  from a1 a2 a3 b1 b2 b3 t1(1,2) w1 t2(1,2) w2 show ?thesis by blast
qed

text \<open>
  C8. For every connection bound to a room of the store, a leave that empties the room's
  player list removes the room from the store, and a leave that does not empty it keeps
  the room in the store, with the remaining players.
\<close>

theorem leave_removes_empty_room:
  assumes "players s sid = Some \<lparr>pd_room_id = rid, pd_player = p\<rparr>"
    and "rooms s rid = Some r"
  shows "rooms (handle_leave_room sid s) rid =
     (if filter (\<lambda>a. player_id (heap s a) \<noteq> sid) (room_players r) = [] then None
      else Some (r\<lparr>room_players := filter (\<lambda>a. player_id (heap s a) \<noteq> sid) (room_players r)\<rparr>))"
  using leave_bound(1) [of s sid "\<lparr>pd_room_id = rid, pd_player = p\<rparr>" r] assms by simp

text \<open>
  A leaves a room it is alone in, and a room it shares with B.
\<close>

theorem leave_removes_empty_room_witness:
  "players (run single_history init_state) ''A'' = Some \<lparr>pd_room_id = ''r1'', pd_player = 0\<rparr>
   \<and> rooms (run single_history init_state) ''r1'' = Some (test_room 2 None [0])
   \<and> rooms (handle_leave_room ''A'' (run single_history init_state)) ''r1'' = None
   \<and> players (run pair_history init_state) ''A'' = Some \<lparr>pd_room_id = ''r1'', pd_player = 0\<rparr>
   \<and> rooms (run pair_history init_state) ''r1'' = Some (test_room 2 None [0, 1])
   \<and> rooms (handle_leave_room ''A'' (run pair_history init_state)) ''r1'' = Some (test_room 2 None [1])"
proof -
  let ?s1 = "run single_history init_state" and ?s2 = "run pair_history init_state"
  have a1: "players ?s1 ''A'' = Some \<lparr>pd_room_id = ''r1'', pd_player = 0\<rparr>"
    by (simp add: single_history_def model_defs)
  have a2: "rooms ?s1 ''r1'' = Some (test_room 2 None [0])"
    by (simp add: single_history_def example_defs model_defs)
  have a3: "player_id (heap ?s1 0) = ''A''"
    by (simp add: single_history_def model_defs)
  have b1: "players ?s2 ''A'' = Some \<lparr>pd_room_id = ''r1'', pd_player = 0\<rparr>"
    by (simp add: pair_history_def model_defs)
  have b2: "rooms ?s2 ''r1'' = Some (test_room 2 None [0, 1])"
    by (simp add: pair_history_def example_defs model_defs)
  have b3: "player_id (heap ?s2 0) = ''A''" "player_id (heap ?s2 1) = ''B''"
    by (simp_all add: pair_history_def model_defs)
  from leave_removes_empty_room [OF a1 a2] a3
  have c1: "rooms (handle_leave_room ''A'' ?s1) ''r1'' = None"
    by (simp add: example_defs)
  from leave_removes_empty_room [OF b1 b2] b3
  have c2: "rooms (handle_leave_room ''A'' ?s2) ''r1'' = Some (test_room 2 None [1])"
    by (simp add: example_defs)
  from a1 a2 b1 b2 c1 c2 show ?thesis by blast
qed

text \<open>
  C9, as amended. The board that start_game puts into the game state carries the marker
  "initial" and the tag "classic" for the mode "classic", "team" for the mode "team" and
  "custom" for every other mode; two modes get the same board exactly when they get the
  same tag.
\<close>

theorem board_tagged_by_mode:
  assumes "rooms s rid = Some r" and "room_players r = a # rest"
  shows "\<exists>s' r' gs. start_game rid s = Inr s' \<and> rooms s' rid = Some r'
     \<and> room_game_state r' = Some gs
     \<and> board gs = initialize_game_board (game_mode r)
     \<and> initialize_game_board (game_mode r) =
          \<lparr>board_type = (if game_mode r = ''classic'' \<or> game_mode r = ''team''
                          then game_mode r else ''custom''),
           board_state = ''initial''\<rparr>
     \<and> ((initialize_game_board (game_mode r) = initialize_game_board gm) =
          ((if game_mode r = ''classic'' \<or> game_mode r = ''team'' then game_mode r else ''custom'')
           = (if gm = ''classic'' \<or> gm = ''team'' then gm else ''custom'')))"
  using start_game_fires [OF assms] by (simp add: initialize_game_board_def)

text \<open>
  A game in the mode "foo" gets the board tagged "custom", and so does the mode "bar".
\<close>

theorem unknown_mode_tagged_custom:
  "map_option game_mode (rooms (run mode_history init_state) ''r1'') = Some ''foo''
   \<and> map_option room_game_state (rooms (run mode_history init_state) ''r1'') =
       Some (Some \<lparr>turn = 0, current_player = ''A'',
                   board = \<lparr>board_type = ''custom'', board_state = ''initial''\<rparr>\<rparr>)
   \<and> ''foo'' \<noteq> ''custom''
   \<and> initialize_game_board ''foo'' = initialize_game_board ''bar''
   \<and> ''foo'' \<noteq> ''bar''"
  by (simp add: mode_history_def model_defs)

text \<open>
  start_game in a classic room with two players.
\<close>

theorem board_tagged_by_mode_witness:
  "rooms (run pair_history init_state) ''r1'' = Some (test_room 2 None [0, 1])
   \<and> room_players (test_room 2 None [0, 1]) = 0 # [1]
   \<and> game_mode (test_room 2 None [0, 1]) = ''classic''
   \<and> (\<exists>s' r' gs. start_game ''r1'' (run pair_history init_state) = Inr s'
        \<and> rooms s' ''r1'' = Some r' \<and> room_game_state r' = Some gs
        \<and> board gs = \<lparr>board_type = ''classic'', board_state = ''initial''\<rparr>)
   \<and> initialize_game_board ''classic'' \<noteq> initialize_game_board ''team''"
proof -
  let ?r = "test_room 2 None [0, 1]"
  have h1: "rooms (run pair_history init_state) ''r1'' = Some ?r"
    by (simp add: pair_history_def example_defs model_defs)
  have h2: "room_players ?r = 0 # [1]"
    by (simp add: example_defs)
  have h3: "game_mode ?r = ''classic''"
    by (simp add: example_defs Room_def)
  from board_tagged_by_mode [OF h1 h2, of "''team''"] h3
  have "(\<exists>s' r' gs. start_game ''r1'' (run pair_history init_state) = Inr s'
        \<and> rooms s' ''r1'' = Some r' \<and> room_game_state r' = Some gs
        \<and> board gs = \<lparr>board_type = ''classic'', board_state = ''initial''\<rparr>)
      \<and> initialize_game_board ''classic'' \<noteq> initialize_game_board ''team''"
    by auto
  with h1 h2 h3 show ?thesis by blast
qed

text \<open>
  C10. Whenever the check of handle_toggle_ready calls start_game (after the toggle all
  players of the room are ready and there are at least two), the player list is not
  empty, the handler returns normally, and the new game state has turn 0 and, as current
  player, the connection id of the first player of the list, who joined before every other
  player still in the list.
\<close>

theorem start_game_first_player:
  assumes "players (run es init_state) sid = Some \<lparr>pd_room_id = rid, pd_player = p\<rparr>"
    and "rooms (run es init_state) rid = Some r"
    and "readiness_check r (flip_ready p (run es init_state))"
  shows "\<exists>s' r' a rest. handle_toggle_ready sid (run es init_state) = Inr s'
     \<and> room_players r = a # rest \<and> (\<forall>b \<in> set rest. a < b)
     \<and> rooms s' rid = Some r' \<and> room_players r' = a # rest
     \<and> room_game_state r' = Some \<lparr>turn = 0, current_player = player_id (heap s' a),
          board = initialize_game_board (game_mode r)\<rparr>"
proof -
  let ?s = "run es init_state"
  let ?pd = "\<lparr>pd_room_id = rid, pd_player = p\<rparr>"
  have "order_inv ?s" by (rule order_run [OF order_init])
  with assms(2) have sorted: "sorted_wrt (<) (room_players r)" by (auto simp: order_inv_def)
  from toggle_fires [of ?s sid ?pd r] assms
  obtain a rest where ar: "room_players r = a # rest"
    and t: "handle_toggle_ready sid ?s =
     Inr (emit_room
           (GameStarted \<lparr>turn = 0, current_player = player_id (heap ?s a),
                         board = initialize_game_board (game_mode r)\<rparr>) rid
           ((emit_room (PlayerReady sid (\<not> ready (heap ?s p)) (get_room_info r))
              rid (flip_ready p ?s))
            \<lparr>rooms := (rooms ?s)(rid \<mapsto> r\<lparr>status := Playing, room_game_state :=
                 Some \<lparr>turn = 0, current_player = player_id (heap ?s a),
                       board = initialize_game_board (game_mode r)\<rparr>\<rparr>)\<rparr>))"
    by auto
  from sorted ar have "\<forall>b \<in> set rest. a < b" by simp
  with ar t show ?thesis by simp
qed

text \<open>
  With A ready, B gets ready: the game starts with A, who joined first.
\<close>

theorem start_game_first_player_witness:
  "players (run waiting_history init_state) ''B'' = Some \<lparr>pd_room_id = ''r1'', pd_player = 1\<rparr>
   \<and> rooms (run waiting_history init_state) ''r1'' = Some (test_room 2 None [0, 1])
   \<and> readiness_check (test_room 2 None [0, 1]) (flip_ready 1 (run waiting_history init_state))
   \<and> (\<exists>s' r'. handle_toggle_ready ''B'' (run waiting_history init_state) = Inr s'
        \<and> rooms s' ''r1'' = Some r' \<and> room_players r' = [0, 1]
        \<and> room_game_state r' = Some (started_by ''A''))
   \<and> player_id (heap (run waiting_history init_state) 0) = ''A''"
proof -
  let ?s = "run waiting_history init_state" and ?r = "test_room 2 None [0, 1]"
  have h1: "players ?s ''B'' = Some \<lparr>pd_room_id = ''r1'', pd_player = 1\<rparr>"
    by (simp add: waiting_history_def model_defs)
  have h2: "rooms ?s ''r1'' = Some ?r"
    by (simp add: waiting_history_def example_defs model_defs)
  have h3: "readiness_check ?r (flip_ready 1 ?s)"
    by (simp add: waiting_history_def example_defs model_defs)
  have e: "player_id (heap ?s 0) = ''A''" "game_mode ?r = ''classic''" "room_players ?r = [0, 1]"
    by (simp_all add: waiting_history_def example_defs model_defs)
  from start_game_first_player [OF h1 h2 h3]
  obtain s' r' a rest where t: "handle_toggle_ready ''B'' ?s = Inr s'"
      "room_players ?r = a # rest" "rooms s' ''r1'' = Some r'" "room_players r' = a # rest"
      "room_game_state r' = Some \<lparr>turn = 0, current_player = player_id (heap s' a),
          board = initialize_game_board (game_mode ?r)\<rparr>"
    by blast
  from t(2) e(3) have a: "a = 0" "rest = [1]" by simp_all
  have "handle_toggle_ready ''B'' ?s = Inr s' \<Longrightarrow> player_id (heap s' 0) = ''A''"
    by (auto simp add: waiting_history_def model_defs)
  with t a e have "room_players r' = [0, 1]" "room_game_state r' = Some (started_by ''A'')"
    by (simp_all add: started_by_def)
  with t(1,3) h1 h2 h3 e(1) show ?thesis by blast
qed

end
